theory Spec2Isabelle
  imports
    Main
    "HOL-Library.Char_ord"
    "HOL-Library.List_Lexorder"
    "HOL-Library.Multiset"
begin

section \<open>Python values used throughout\<close>

text \<open>
  An \<^verbatim>\<open>Optional[str]\<close> is a \<^typ>\<open>string option\<close>. Python's truth test on it
  (\<^verbatim>\<open>if x:\<close>, \<^verbatim>\<open>x or y\<close>) is false for \<^verbatim>\<open>None\<close> and for the empty string.
\<close>

fun truthy :: "string option \<Rightarrow> bool" where
  "truthy None = False"
| "truthy (Some s) = (s \<noteq> [])"

fun py_or :: "string option \<Rightarrow> string \<Rightarrow> string" where
  "py_or None d = d"
| "py_or (Some s) d = (if s = [] then d else s)"

section \<open>The message log: \<^verbatim>\<open>storage/db.py\<close>\<close>

text \<open>
  An attachment reference is a Python dict (the callers pass \<^verbatim>\<open>[{'id': ...}]\<close>), kept
  as an association list. The table stores the list as JSON text and
  \<^verbatim>\<open>_row_to_message\<close> decodes it again; on lists of such dicts encoding followed by
  decoding gives the list back, so a table row holds the list itself.
\<close>

type_synonym attachment = "(string \<times> string) list"

record MessageRow =
  message_id :: string
  conversation_id :: string
  role :: string
  content_text :: string
  created_at_utc :: string
  client_request_id :: "string option"
  attachments :: "attachment list"

text \<open>
  The table \<^verbatim>\<open>messages\<close> is the list of its rows in insertion (rowid) order. Every
  column but \<^verbatim>\<open>client_request_id\<close> is \<^verbatim>\<open>NOT NULL\<close>, which the record's types give.
\<close>

type_synonym messages_table = "MessageRow list"

text \<open>
  The exceptions that leave the modelled functions: \<^verbatim>\<open>sqlite3.IntegrityError\<close> with its
  message, \<^verbatim>\<open>ApiError(code, message, http_status)\<close>, and the request validation error
  of the web framework for a query parameter outside its declared range.
\<close>

datatype raised =
    IntegrityError string
  | ApiError string string int
  | RequestValidationError string

text \<open>
  \<^verbatim>\<open>SELECT * FROM messages WHERE message_id=?\<close> followed by \<^verbatim>\<open>fetchone()\<close>.
\<close>

definition get_message :: "messages_table \<Rightarrow> string \<Rightarrow> MessageRow option" where
  "get_message tbl mid = find (\<lambda>r. message_id r = mid) tbl"

text \<open>
  \<^verbatim>\<open>SELECT * FROM messages WHERE conversation_id=? AND client_request_id=?\<close> followed
  by \<^verbatim>\<open>fetchone()\<close>: a row whose \<^verbatim>\<open>client_request_id\<close> is \<^verbatim>\<open>NULL\<close> never matches.
\<close>

definition select_idempotent :: "messages_table \<Rightarrow> string \<Rightarrow> string \<Rightarrow> MessageRow option" where
  "select_idempotent tbl cid crid =
     find (\<lambda>r. conversation_id r = cid \<and> client_request_id r = Some crid) tbl"

text \<open>
  \<^verbatim>\<open>INSERT INTO messages ...\<close> under the schema's two uniqueness constraints:
  \<^verbatim>\<open>message_id TEXT PRIMARY KEY\<close>, and the partial index
  \<^verbatim>\<open>idx_messages_idempotent ON messages(conversation_id, client_request_id)
  WHERE client_request_id IS NOT NULL\<close>. The index covers every row whose key is not
  \<^verbatim>\<open>NULL\<close>, the empty string included. A violated constraint raises
  \<^verbatim>\<open>sqlite3.IntegrityError\<close>, which \<^verbatim>\<open>create_message\<close> does not catch.
\<close>

definition insert_row :: "messages_table \<Rightarrow> MessageRow \<Rightarrow> raised + messages_table" where
  "insert_row tbl r =
     (if message_id r \<in> set (map message_id tbl)
      then Inl (IntegrityError ''UNIQUE constraint failed: messages.message_id'')
      else if client_request_id r \<noteq> None
              \<and> (conversation_id r, client_request_id r)
                  \<in> set (map (\<lambda>x. (conversation_id x, client_request_id x)) tbl)
      then Inl (IntegrityError
             ''UNIQUE constraint failed: messages.conversation_id, messages.client_request_id'')
      else Inr (tbl @ [r]))"

text \<open>
  \<^verbatim>\<open>SqliteStore.create_message\<close>. The first argument is the value \<^verbatim>\<open>utc_now_iso()\<close>
  returns in this call, the second the table before the call; the result is the
  returned row with the table after the call, or the exception raised.
\<close>

definition create_message ::
  "string \<Rightarrow> messages_table \<Rightarrow> string \<Rightarrow> string \<Rightarrow> string \<Rightarrow> string \<Rightarrow> string option
     \<Rightarrow> attachment list option \<Rightarrow> raised + (MessageRow \<times> messages_table)" where
  "create_message now tbl mid cid rl txt crid atts =
     (let created = now;
          atts' = (case atts of None \<Rightarrow> [] | Some a \<Rightarrow> a);
          new_row = \<lparr> message_id = mid, conversation_id = cid, role = rl,
                      content_text = txt, created_at_utc = created,
                      client_request_id = crid, attachments = atts' \<rparr>
      in case (case crid of
                 None \<Rightarrow> None
               | Some k \<Rightarrow> if truthy crid then select_idempotent tbl cid k else None) of
           Some row \<Rightarrow> Inr (row, tbl)
         | None \<Rightarrow>
             (case insert_row tbl new_row of
                Inl e \<Rightarrow> Inl e
              | Inr tbl' \<Rightarrow> Inr (new_row, tbl')))"

text \<open>
  \<^verbatim>\<open>ORDER BY created_at_utc\<close> compares the \<^verbatim>\<open>TEXT\<close> column byte by byte, which is the
  lexicographic order on \<^typ>\<open>string\<close>. SQL leaves the order of rows with equal keys
  open; the model sorts stably over rowid order, ascending and descending.
  \<^verbatim>\<open>LIMIT n\<close> keeps the first \<open>n\<close> rows, and every row when \<open>n\<close> is negative.
\<close>

definition order_by_created_asc :: "MessageRow list \<Rightarrow> MessageRow list" where
  "order_by_created_asc rows = sort_key created_at_utc rows"

definition order_by_created_desc :: "MessageRow list \<Rightarrow> MessageRow list" where
  "order_by_created_desc rows = rev (sort_key created_at_utc (rev rows))"

definition sql_limit :: "int \<Rightarrow> 'a list \<Rightarrow> 'a list" where
  "sql_limit n rows = (if n < 0 then rows else take (nat n) rows)"

text \<open>
  \<^verbatim>\<open>SqliteStore.list_messages\<close>. The \<^verbatim>\<open>WHERE\<close> clause gets the time bound only when
  \<^verbatim>\<open>before_created_at_utc\<close> passes Python's truth test.
\<close>

definition where_clause :: "string \<Rightarrow> string option \<Rightarrow> MessageRow \<Rightarrow> bool" where
  "where_clause cid before_created_at_utc r =
     (conversation_id r = cid
      \<and> (case before_created_at_utc of
            None \<Rightarrow> True
          | Some ts \<Rightarrow>
              if truthy before_created_at_utc then created_at_utc r < ts else True))"

definition list_messages ::
  "messages_table \<Rightarrow> string \<Rightarrow> int option \<Rightarrow> string option \<Rightarrow> MessageRow list" where
  "list_messages tbl cid limit before_created_at_utc =
     (case limit of
        None \<Rightarrow> order_by_created_asc (filter (where_clause cid before_created_at_utc) tbl)
      | Some n \<Rightarrow>
          rev (sql_limit n
                 (order_by_created_desc (filter (where_clause cid before_created_at_utc) tbl))))"

section \<open>The request/response surface: \<^verbatim>\<open>api/http.py\<close>\<close>

text \<open>
  \<^verbatim>\<open>GET /conversations/{conversation_id}/messages\<close>. The query parameter \<^verbatim>\<open>limit\<close> is
  declared \<^verbatim>\<open>Query(default=50, ge=1, le=200)\<close>: the framework rejects a value outside
  the range before the body runs. \<^verbatim>\<open>before\<close> is a message id (\<open>before_id\<close> below).
  A \<^verbatim>\<open>MessageRecord\<close> has the fields of the row it is built from (\<^verbatim>\<open>id\<close> is the
  row's \<^verbatim>\<open>message_id\<close>), so the items are the rows. The result is \<^verbatim>\<open>(items, next_before)\<close>. The bearer-token
  dependency is outside the model.
\<close>

definition list_messages_endpoint ::
  "messages_table \<Rightarrow> string \<Rightarrow> int option \<Rightarrow> string option
     \<Rightarrow> raised + (MessageRow list \<times> string option)" where
  "list_messages_endpoint tbl cid limit_param before_id =
     (let limit = (case limit_param of None \<Rightarrow> 50 | Some n \<Rightarrow> n)
      in if limit < 1 \<or> 200 < limit then Inl (RequestValidationError ''limit'')
         else
           case (case before_id of
                   None \<Rightarrow> Inr None
                 | Some b \<Rightarrow>
                     if truthy before_id
                     then (case get_message tbl b of
                             None \<Rightarrow> Inl (ApiError ''NOT_FOUND'' ''before message not found'' 404)
                           | Some row \<Rightarrow> Inr (Some (created_at_utc row)))
                     else Inr None) of
             Inl e \<Rightarrow> Inl e
           | Inr before_ts \<Rightarrow>
               (let items = list_messages tbl cid (Some limit) before_ts;
                    next_before = (if int (length items) = limit
                                   then Some (message_id (last items)) else None)
                in Inr (items, next_before)))"

section \<open>The event bus: \<^verbatim>\<open>events/\<close>\<close>

text \<open>
  Python dict literals with string values are association lists in the order written.
  The bus is the log of what was published, as \<^verbatim>\<open>(topic, envelope)\<close>; subscribers are
  external and not modelled.
\<close>

type_synonym dict = "(string \<times> string) list"

record EventEnvelope =
  event_id :: string
  event_trace_id :: string
  occurred_at_utc :: string
  producer :: string
  event_type :: string
  version :: int
  privacy :: string
  notify_policy :: string
  payload :: dict
  idempotency_key :: "string option"

type_synonym bus_log = "(string \<times> EventEnvelope) list"

definition publish :: "string \<Rightarrow> EventEnvelope \<Rightarrow> bus_log \<Rightarrow> bus_log" where
  "publish topic env log = log @ [(topic, env)]"

section \<open>The turn orchestrator: \<^verbatim>\<open>core/orchestrator.py\<close>\<close>

datatype ChatMessage = ChatMessage (chat_role: string) (chat_content_text: string)

text \<open>
  \<^verbatim>\<open>str.split()\<close> without arguments: the maximal runs of characters that are not
  whitespace. Whitespace is what \<^verbatim>\<open>str.isspace\<close> accepts among the code points below
  256, which are the characters a \<^typ>\<open>string\<close> holds.
\<close>

definition py_isspace :: "char \<Rightarrow> bool" where
  "py_isspace c \<longleftrightarrow>
     c \<in> set [CHR 0x09, CHR 0x0A, CHR 0x0B, CHR 0x0C, CHR 0x0D, CHR 0x1C, CHR 0x1D,
              CHR 0x1E, CHR 0x1F, CHR 0x20, CHR 0x85, CHR 0xA0]"

fun split_from :: "string \<Rightarrow> string \<Rightarrow> string list" where
  "split_from word [] = (if word = [] then [] else [word])"
| "split_from word (c # cs) =
     (if py_isspace c
      then (if word = [] then split_from [] cs else word # split_from [] cs)
      else split_from (word @ [c]) cs)"

definition py_split :: "string \<Rightarrow> string list" where
  "py_split s = split_from [] s"

text \<open>
  What one call of \<^verbatim>\<open>self.llm.astream(messages=ctx, cancel=cancel_event)\<close> does, as the
  list of what each step of the \<^verbatim>\<open>async for\<close> gets from it: a fragment, or an exception
  with its \<^verbatim>\<open>str(e)\<close>; at the end of the list the stream is exhausted. How a provider
  reacts to the cancellation signal is part of that list.
\<close>

datatype stream_item = Yield string | Raise string

text \<open>
  The cancellation signal is \<^verbatim>\<open>cancel_event.is_set()\<close> as a function of the moment it is
  asked: moment \<open>0\<close> is the check after \<^verbatim>\<open>on_status("queued")\<close>, and every step of the
  stream ends at the next moment. Nothing is awaited between the \<^verbatim>\<open>break\<close> and the check
  after the loop, so that check reads the signal at the moment of the \<^verbatim>\<open>break\<close>.
\<close>

type_synonym cancel_event = "nat \<Rightarrow> bool"

record Orchestrator =
  llm :: "ChatMessage list \<Rightarrow> stream_item list"
  context_limit :: int
  system_prompt :: string

text \<open>\<^verbatim>\<open>Orchestrator.__init__\<close>: the context limit is at least one.\<close>

definition new_orchestrator ::
  "(ChatMessage list \<Rightarrow> stream_item list) \<Rightarrow> int \<Rightarrow> string \<Rightarrow> Orchestrator" where
  "new_orchestrator provider limit prompt =
     \<lparr> llm = provider, context_limit = max 1 limit, system_prompt = prompt \<rparr>"

text \<open>
  The values one call of \<^verbatim>\<open>run_turn\<close> draws from \<^verbatim>\<open>new_trace_id()\<close>, \<^verbatim>\<open>new_id()\<close> and
  \<^verbatim>\<open>utc_now_iso()\<close>, named by the place that draws them.
\<close>

record turn_env =
  gen_trace_id :: string
  gen_user_message_id :: string
  gen_user_event_id :: string
  gen_assistant_message_id :: string
  gen_assistant_event_id :: string
  now_user_message :: string
  now_user_event :: string
  now_assistant_message :: string
  now_assistant_event :: string

record turn_call =
  call_conversation_id :: string
  call_content_text :: string
  call_attachments :: "attachment list"
  call_trace_id :: "string option"
  call_user_message_id :: "string option"
  call_client_request_id :: "string option"

datatype callback = OnStatus string | OnDelta string

text \<open>
  What \<^verbatim>\<open>run_turn\<close> acts on: the message table, the bus, and the calls it makes to
  \<^verbatim>\<open>on_status\<close> and \<^verbatim>\<open>on_delta\<close>, in order. The callbacks are the session's frame
  senders; a callback that raises is outside the model.
\<close>

record world =
  store :: messages_table
  bus :: bus_log
  callbacks :: "callback list"

record TurnResult =
  trace_id :: string
  user_message :: MessageRow
  assistant_message :: "MessageRow option"
  reason :: string
  usage :: "(string \<times> int) list"
  capability_warnings :: "dict list"
  error :: "dict option"

definition orchestrator_publish ::
  "string \<Rightarrow> string \<Rightarrow> dict \<Rightarrow> string \<Rightarrow> string \<Rightarrow> world \<Rightarrow> world" where
  "orchestrator_publish etype tid pl new_id now w =
     w\<lparr> bus := publish (''alpha.'' @ etype)
            \<lparr> event_id = new_id, event_trace_id = tid, occurred_at_utc = now,
              producer = ''core.orchestrator'', event_type = etype, version = 1,
              privacy = ''normal'', notify_policy = ''none'', payload = pl,
              idempotency_key = None \<rparr> (bus w) \<rparr>"

definition on_status :: "string \<Rightarrow> world \<Rightarrow> world" where
  "on_status stage w = w\<lparr> callbacks := callbacks w @ [OnStatus stage] \<rparr>"

definition on_delta :: "string \<Rightarrow> world \<Rightarrow> world" where
  "on_delta delta w = w\<lparr> callbacks := callbacks w @ [OnDelta delta] \<rparr>"

text \<open>Step 2 of \<^verbatim>\<open>run_turn\<close>: the context handed to the provider.\<close>

definition build_context ::
  "Orchestrator \<Rightarrow> MessageRow list \<Rightarrow> MessageRow \<Rightarrow> string \<Rightarrow> ChatMessage list" where
  "build_context orch history user_row txt =
     ChatMessage ''system'' (system_prompt orch)
     # map (\<lambda>row. ChatMessage (role row) (content_text row))
         (filter (\<lambda>row. message_id row \<noteq> message_id user_row
                         \<and> role row \<in> set [''user'', ''assistant'']) history)
     @ [ChatMessage ''user'' txt]"

definition turn_context ::
  "Orchestrator \<Rightarrow> messages_table \<Rightarrow> string \<Rightarrow> MessageRow \<Rightarrow> string \<Rightarrow> ChatMessage list" where
  "turn_context orch tbl cid user_row txt =
     build_context orch (list_messages tbl cid (Some (context_limit orch)) None) user_row txt"

text \<open>
  The \<^verbatim>\<open>async for\<close> loop inside the \<^verbatim>\<open>try\<close>. \<open>t\<close> is the moment reached, \<open>parts\<close> is
  \<^verbatim>\<open>out_text_parts\<close>. The result says how the loop was left, at which moment, and with
  which parts.
\<close>

datatype loop_exit = Exhausted | Broke | Failed string

fun consume ::
  "cancel_event \<Rightarrow> stream_item list \<Rightarrow> nat \<Rightarrow> string list \<Rightarrow> world
     \<Rightarrow> loop_exit \<times> nat \<times> string list \<times> world" where
  "consume cancel [] t parts w = (Exhausted, Suc t, parts, w)"
| "consume cancel (Raise e # rest) t parts w = (Failed e, Suc t, parts, w)"
| "consume cancel (Yield delta # rest) t parts w =
     (if cancel (Suc t) then (Broke, Suc t, parts, w)
      else consume cancel rest (Suc t) (parts @ [delta]) (on_delta delta w))"

definition no_usage :: "(string \<times> int) list" where
  "no_usage = [(''input_tokens'', 0), (''output_tokens'', 0)]"

text \<open>
  \<^verbatim>\<open>Orchestrator.run_turn\<close>. The result is what the call returns, or the store's
  exception that leaves it, with the world as the call left it.
\<close>

definition run_turn ::
  "Orchestrator \<Rightarrow> turn_env \<Rightarrow> cancel_event \<Rightarrow> turn_call \<Rightarrow> world
     \<Rightarrow> (raised + TurnResult) \<times> world" where
  "run_turn orch env cancel call w =
     (let tid = py_or (call_trace_id call) (gen_trace_id env);
          user_message_id = py_or (call_user_message_id call) (gen_user_message_id env);
          cid = call_conversation_id call;
          txt = call_content_text call
      in case create_message (now_user_message env) (store w) user_message_id cid ''user'' txt
                (call_client_request_id call) (Some (call_attachments call)) of
           Inl e \<Rightarrow> (Inl e, w)
         | Inr (user_row, tbl1) \<Rightarrow>
             (let w1 = orchestrator_publish ''message.stored'' tid
                         [(''conversation_id'', cid), (''message_id'', message_id user_row),
                          (''role'', ''user'')]
                         (gen_user_event_id env) (now_user_event env) (w\<lparr> store := tbl1 \<rparr>);
                  ctx = turn_context orch (store w1) cid user_row txt;
                  w2 = on_status ''queued'' w1
              in if cancel 0
                 then (Inr \<lparr> trace_id = tid, user_message = user_row, assistant_message = None,
                             reason = ''cancelled'', usage = no_usage,
                             capability_warnings = [], error = None \<rparr>, w2)
                 else
                   (let w3 = on_status ''thinking'' w2;
                        w4 = on_status ''streaming'' w3
                    in case consume cancel (llm orch ctx) 0 [] w4 of
                         (Failed e, t, out_text_parts, w5) \<Rightarrow>
                           (Inr \<lparr> trace_id = tid, user_message = user_row,
                                  assistant_message = None, reason = ''error'', usage = no_usage,
                                  capability_warnings =
                                    [[(''name'', ''llm''), (''status'', ''down''),
                                      (''notify'', ''explicit'')]],
                                  error = Some [(''code'', ''UNAVAILABLE''), (''message'', e)] \<rparr>,
                            w5)
                       | (_, t, out_text_parts, w5) \<Rightarrow>
                           if cancel t
                           then (Inr \<lparr> trace_id = tid, user_message = user_row,
                                       assistant_message = None, reason = ''cancelled'',
                                       usage = no_usage, capability_warnings = [],
                                       error = None \<rparr>, w5)
                           else
                             (let out_text = concat out_text_parts
                              in case create_message (now_assistant_message env) (store w5)
                                        (gen_assistant_message_id env) cid ''assistant'' out_text
                                        None (Some []) of
                                   Inl e \<Rightarrow> (Inl e, w5)
                                 | Inr (assistant_row, tbl2) \<Rightarrow>
                                     (let w6 = orchestrator_publish ''message.stored'' tid
                                                 [(''conversation_id'', cid),
                                                  (''message_id'', message_id assistant_row),
                                                  (''role'', ''assistant'')]
                                                 (gen_assistant_event_id env)
                                                 (now_assistant_event env) (w5\<lparr> store := tbl2 \<rparr>);
                                          usage' =
                                            [(''input_tokens'', max 0 (int (length (py_split txt)))),
                                             (''output_tokens'',
                                                max 0 (int (length (py_split out_text))))]
                                      in (Inr \<lparr> trace_id = tid, user_message = user_row,
                                                assistant_message = Some assistant_row,
                                                reason = ''completed'', usage = usage',
                                                capability_warnings = [], error = None \<rparr>,
                                          w6))))))"

section \<open>The streaming session: \<^verbatim>\<open>api/ws.py\<close>\<close>

text \<open>
  The frames a session sends. A \<^verbatim>\<open>WsAssistantDone\<close> carries \<^verbatim>\<open>trace_id\<close>, \<^verbatim>\<open>reason\<close>,
  \<^verbatim>\<open>message_id\<close>, \<^verbatim>\<open>usage\<close>, \<^verbatim>\<open>capability_warnings\<close> and \<^verbatim>\<open>error\<close>; the two other
  frames carry the \<^verbatim>\<open>trace_id\<close> with the stage or the delta.
\<close>

datatype frame =
    AssistantStatus string string
  | AssistantDelta string string
  | AssistantDone string string "string option" "(string \<times> int) list" "dict list" "dict option"

record WsUserMessage =
  um_trace_id :: "string option"
  um_conversation_id :: "string option"
  um_content_text :: string
  um_attachments :: "string list"
  um_client_request_id :: "string option"

record WsCancel =
  cancel_trace_id :: string
  cancel_reason :: "string option"

text \<open>
  What \<^verbatim>\<open>handle_raw\<close> gets once \<^verbatim>\<open>json.loads\<close> and the frame models' validation have
  run, which are library code: text that is not JSON, JSON that is not an object, a
  valid \<^verbatim>\<open>user_message\<close> or \<^verbatim>\<open>cancel\<close> frame, a frame of one of these two types whose
  validation raised (with the object's \<^verbatim>\<open>trace_id\<close> and \<^verbatim>\<open>str(e)\<close>), or an object of
  another type (with its \<^verbatim>\<open>trace_id\<close> and the \<^verbatim>\<open>repr\<close> of the type).
\<close>

datatype inbound =
    NotJson
  | NotObject
  | UserMessageFrame WsUserMessage
  | CancelFrame WsCancel
  | Invalid "string option" string
  | UnknownType "string option" string

text \<open>
  The values one handled frame draws from \<^verbatim>\<open>new_trace_id()\<close>, \<^verbatim>\<open>new_id()\<close> (for the
  user message and for the event) and \<^verbatim>\<open>utc_now_iso()\<close>.
\<close>

record ws_fresh =
  fresh_trace_id :: string
  fresh_message_id :: string
  fresh_event_id :: string
  fresh_now :: string

text \<open>
  An \<^verbatim>\<open>asyncio.Task\<close> running \<^verbatim>\<open>orch.run_turn(...)\<close>: the arguments of the call, and
  whether \<^verbatim>\<open>done()\<close> holds. The session's variables are those of the closure
  \<^verbatim>\<open>ws_chat\<close>: \<^verbatim>\<open>current_cancel\<close> is the turn's \<^verbatim>\<open>asyncio.Event\<close> (\<open>Some True\<close> once
  set), \<open>sent\<close> the frames sent on the connection, \<open>published\<close> the bus.
\<close>

record task =
  task_call :: turn_call
  task_done :: bool

record session =
  path_conversation_id :: "string option"
  current_task :: "task option"
  current_cancel :: "bool option"
  current_trace_id :: "string option"
  sent :: "frame list"
  published :: bus_log

definition new_session :: "string option \<Rightarrow> session" where
  "new_session cid =
     \<lparr> path_conversation_id = cid, current_task = None, current_cancel = None,
       current_trace_id = None, sent = [], published = [] \<rparr>"

text \<open>\<^verbatim>\<open>Usage(**(usage or {}))\<close>: a missing count is \<open>0\<close>.\<close>

definition usage_model :: "(string \<times> int) list option \<Rightarrow> (string \<times> int) list" where
  "usage_model u =
     (let d = (case u of None \<Rightarrow> [] | Some x \<Rightarrow> x)
      in [(''input_tokens'', (case map_of d ''input_tokens'' of None \<Rightarrow> 0 | Some n \<Rightarrow> n)),
          (''output_tokens'', (case map_of d ''output_tokens'' of None \<Rightarrow> 0 | Some n \<Rightarrow> n))])"

definition send_done ::
  "string \<Rightarrow> string \<Rightarrow> string option \<Rightarrow> (string \<times> int) list option \<Rightarrow> dict list option
     \<Rightarrow> dict option \<Rightarrow> session \<Rightarrow> session" where
  "send_done tid rsn mid u warnings err s =
     s\<lparr> sent := sent s @ [AssistantDone tid rsn mid (usage_model u)
                             (case warnings of None \<Rightarrow> [] | Some ws \<Rightarrow> ws) err] \<rparr>"

definition send_status :: "string \<Rightarrow> string \<Rightarrow> session \<Rightarrow> session" where
  "send_status tid stage s = s\<lparr> sent := sent s @ [AssistantStatus tid stage] \<rparr>"

definition send_delta :: "string \<Rightarrow> string \<Rightarrow> session \<Rightarrow> session" where
  "send_delta tid delta s = s\<lparr> sent := sent s @ [AssistantDelta tid delta] \<rparr>"

text \<open>\<^verbatim>\<open>msg_conversation_id or conversation_id\<close>.\<close>

definition resolve_conversation_id :: "session \<Rightarrow> string option \<Rightarrow> string option" where
  "resolve_conversation_id s msg_conversation_id =
     (if truthy msg_conversation_id then msg_conversation_id else path_conversation_id s)"

definition publish_received ::
  "string \<Rightarrow> string \<Rightarrow> string \<Rightarrow> string option \<Rightarrow> ws_fresh \<Rightarrow> session \<Rightarrow> session" where
  "publish_received tid cid mid key fr s =
     s\<lparr> published := publish ''alpha.message.received''
            \<lparr> event_id = fresh_event_id fr, event_trace_id = tid,
              occurred_at_utc = fresh_now fr, producer = ''core.gateway'',
              event_type = ''message.received'', version = 1, privacy = ''normal'',
              notify_policy = ''none'',
              payload = [(''conversation_id'', cid), (''message_id'', mid)],
              idempotency_key = key \<rparr> (published s) \<rparr>"

text \<open>\<^verbatim>\<open>current_task and not current_task.done()\<close>.\<close>

definition turn_running :: "session \<Rightarrow> bool" where
  "turn_running s = (case current_task s of None \<Rightarrow> False | Some t \<Rightarrow> \<not> task_done t)"

definition start_turn :: "ws_fresh \<Rightarrow> WsUserMessage \<Rightarrow> session \<Rightarrow> session" where
  "start_turn fr msg s =
     (if turn_running s
      then send_done (py_or (current_trace_id s) (fresh_trace_id fr)) ''error'' None None None
             (Some [(''code'', ''CONFLICT''), (''message'', ''turn already running'')]) s
      else
        case resolve_conversation_id s (um_conversation_id msg) of
          None \<Rightarrow>
            send_done (py_or (um_trace_id msg) (fresh_trace_id fr)) ''error'' None None None
              (Some [(''code'', ''INVALID_ARGUMENT''),
                     (''message'', ''conversation_id is required'')]) s
        | Some cid \<Rightarrow>
            if cid = []
            then send_done (py_or (um_trace_id msg) (fresh_trace_id fr)) ''error'' None None None
                   (Some [(''code'', ''INVALID_ARGUMENT''),
                          (''message'', ''conversation_id is required'')]) s
            else
              (let tid = py_or (um_trace_id msg) (fresh_trace_id fr);
                   s1 = s\<lparr> current_trace_id := Some tid \<rparr>;
                   user_message_id = fresh_message_id fr;
                   s2 = publish_received tid cid user_message_id (um_client_request_id msg) fr s1;
                   s3 = s2\<lparr> current_cancel := Some False \<rparr>;
                   atts = map (\<lambda>a. [(''id'', a)]) (um_attachments msg)
               in s3\<lparr> current_task := Some
                        \<lparr> task_call =
                            \<lparr> call_conversation_id = cid,
                              call_content_text = um_content_text msg,
                              call_attachments = atts,
                              call_trace_id = Some tid,
                              call_user_message_id = Some user_message_id,
                              call_client_request_id = um_client_request_id msg \<rparr>,
                          task_done = False \<rparr> \<rparr>))"

definition handle_cancel :: "WsCancel \<Rightarrow> session \<Rightarrow> session" where
  "handle_cancel msg s =
     (if \<not> turn_running s \<or> current_cancel s = None
      then send_done (cancel_trace_id msg) ''error'' None None None
             (Some [(''code'', ''NOT_FOUND''), (''message'', ''no running turn'')]) s
      else if truthy (current_trace_id s) \<and> Some (cancel_trace_id msg) \<noteq> current_trace_id s
      then send_done (cancel_trace_id msg) ''error'' None None None
             (Some [(''code'', ''NOT_FOUND''), (''message'', ''trace_id not running'')]) s
      else s\<lparr> current_cancel := Some True \<rparr>)"

text \<open>
  \<^verbatim>\<open>finish_turn\<close>, given what \<^verbatim>\<open>await current_task\<close> gives: the result of the call, or
  the exception that left it, which \<^verbatim>\<open>finish_turn\<close> and the main loop let through.
\<close>

definition clear_turn :: "session \<Rightarrow> session" where
  "clear_turn s = s\<lparr> current_task := None, current_cancel := None, current_trace_id := None \<rparr>"

definition send_result :: "TurnResult \<Rightarrow> session \<Rightarrow> session" where
  "send_result result s =
     send_done (trace_id result) (reason result)
       (case assistant_message result of None \<Rightarrow> None | Some m \<Rightarrow> Some (message_id m))
       (Some (usage result)) (Some (capability_warnings result)) (error result) s"

definition finish_turn :: "raised + TurnResult \<Rightarrow> session \<Rightarrow> raised + session" where
  "finish_turn outcome s =
     (case current_task s of
        None \<Rightarrow> Inr s
      | Some t \<Rightarrow>
          (case outcome of
             Inl e \<Rightarrow> Inl e
           | Inr result \<Rightarrow> Inr (clear_turn (send_result result s))))"

definition invalid_argument :: "string \<Rightarrow> dict option" where
  "invalid_argument m = Some [(''code'', ''INVALID_ARGUMENT''), (''message'', m)]"

definition handle_raw :: "ws_fresh \<Rightarrow> inbound \<Rightarrow> session \<Rightarrow> session" where
  "handle_raw fr raw s =
     (case raw of
        NotJson \<Rightarrow>
          send_done (fresh_trace_id fr) ''error'' None None None
            (invalid_argument ''invalid JSON'') s
      | NotObject \<Rightarrow>
          send_done (fresh_trace_id fr) ''error'' None None None
            (invalid_argument ''message must be a JSON object'') s
      | UserMessageFrame msg \<Rightarrow> start_turn fr msg s
      | CancelFrame msg \<Rightarrow> handle_cancel msg s
      | UnknownType tid t \<Rightarrow>
          send_done (py_or tid (fresh_trace_id fr)) ''error'' None None None
            (invalid_argument (''unknown message type: '' @ t)) s
      | Invalid tid e \<Rightarrow>
          send_done (py_or tid (fresh_trace_id fr)) ''error'' None None None
            (invalid_argument e) s)"

text \<open>
  The states a session can be in. The main loop waits for a received frame and for
  \<^verbatim>\<open>finish_turn\<close> at once and the running call sends its status and delta frames in
  between, so the steps below may come in any order: a frame is handled, the running
  call returns (its task is done), some frame is sent, and \<^verbatim>\<open>finish_turn\<close> clears the
  variables after its frame is sent. What \<^verbatim>\<open>new_trace_id()\<close> returns is never empty (a
  ULID, or the hex digits of a UUID).
\<close>

inductive reachable :: "session \<Rightarrow> bool" where
  opened: "reachable (new_session cid)"
| received: "reachable s \<Longrightarrow> fresh_trace_id fr \<noteq> [] \<Longrightarrow> reachable (handle_raw fr raw s)"
| returned: "reachable s \<Longrightarrow> current_task s = Some t
               \<Longrightarrow> reachable (s\<lparr> current_task := Some (t\<lparr> task_done := True \<rparr>) \<rparr>)"
| frame_sent: "reachable s \<Longrightarrow> reachable (s\<lparr> sent := sent s @ [f] \<rparr>)"
| cleared: "reachable s \<Longrightarrow> reachable (clear_turn s)"


section \<open>Example data\<close>

definition first_row :: MessageRow where
  "first_row =
     \<lparr> message_id = ''m1'', conversation_id = ''c1'', role = ''user'',
       content_text = ''first'', created_at_utc = ''2024-01-01T00:00:01Z'',
       client_request_id = Some [], attachments = [] \<rparr>"

definition msg_1 :: MessageRow where
  "msg_1 =
     \<lparr> message_id = ''m1'', conversation_id = ''c1'', role = ''user'',
       content_text = ''one'', created_at_utc = ''2024-01-01T00:00:01Z'',
       client_request_id = None, attachments = [] \<rparr>"

definition msg_2 :: MessageRow where
  "msg_2 =
     \<lparr> message_id = ''m2'', conversation_id = ''c1'', role = ''assistant'',
       content_text = ''two'', created_at_utc = ''2024-01-01T00:00:02Z'',
       client_request_id = None, attachments = [] \<rparr>"

definition msg_3 :: MessageRow where
  "msg_3 =
     \<lparr> message_id = ''m3'', conversation_id = ''c1'', role = ''user'',
       content_text = ''three'', created_at_utc = ''2024-01-01T00:00:03Z'',
       client_request_id = None, attachments = [] \<rparr>"

definition three_messages :: messages_table where
  "three_messages = [msg_1, msg_2, msg_3]"

definition example_env :: turn_env where
  "example_env =
     \<lparr> gen_trace_id = ''trace-1'', gen_user_message_id = ''u1'', gen_user_event_id = ''e1'',
       gen_assistant_message_id = ''a1'', gen_assistant_event_id = ''e2'',
       now_user_message = ''2024-01-01T00:00:01Z'', now_user_event = ''2024-01-01T00:00:01Z'',
       now_assistant_message = ''2024-01-01T00:00:02Z'',
       now_assistant_event = ''2024-01-01T00:00:02Z'' \<rparr>"

definition hello_call :: turn_call where
  "hello_call =
     \<lparr> call_conversation_id = ''c1'', call_content_text = ''hello'', call_attachments = [],
       call_trace_id = None, call_user_message_id = None, call_client_request_id = None \<rparr>"

definition hello_row :: MessageRow where
  "hello_row =
     \<lparr> message_id = ''u1'', conversation_id = ''c1'', role = ''user'',
       content_text = ''hello'', created_at_utc = ''2024-01-01T00:00:01Z'',
       client_request_id = None, attachments = [] \<rparr>"

definition empty_world :: world where
  "empty_world = \<lparr> store = [], bus = [], callbacks = [] \<rparr>"

definition greeting_orchestrator :: Orchestrator where
  "greeting_orchestrator =
     new_orchestrator (\<lambda>ctx. [Yield ''Hi'', Yield '' there'']) 30 ''You are a helpful assistant.''"

definition abc_orchestrator :: Orchestrator where
  "abc_orchestrator =
     new_orchestrator (\<lambda>ctx. [Yield ''a'', Yield ''b'', Yield ''c'']) 30
       ''You are a helpful assistant.''"

definition failing_orchestrator :: Orchestrator where
  "failing_orchestrator =
     new_orchestrator (\<lambda>ctx. [Yield ''a'', Yield ''b'', Raise ''boom'']) 30
       ''You are a helpful assistant.''"

definition never_cancelled :: cancel_event where
  "never_cancelled t = False"

definition cancelled_from :: "nat \<Rightarrow> cancel_event" where
  "cancelled_from k t = (k \<le> t)"

definition example_fresh :: ws_fresh where
  "example_fresh =
     \<lparr> fresh_trace_id = ''t1'', fresh_message_id = ''u1'', fresh_event_id = ''e0'',
       fresh_now = ''2024-01-01T00:00:01Z'' \<rparr>"

definition later_fresh :: ws_fresh where
  "later_fresh =
     \<lparr> fresh_trace_id = ''t2'', fresh_message_id = ''u2'', fresh_event_id = ''e5'',
       fresh_now = ''2024-01-01T00:00:02Z'' \<rparr>"

definition hello_frame :: WsUserMessage where
  "hello_frame =
     \<lparr> um_trace_id = None, um_conversation_id = None, um_content_text = ''hello'',
       um_attachments = [], um_client_request_id = None \<rparr>"

definition running_session :: session where
  "running_session =
     handle_raw example_fresh (UserMessageFrame hello_frame) (new_session (Some ''c1''))"

definition hello_result :: TurnResult where
  "hello_result =
     \<lparr> trace_id = ''t1'', user_message = hello_row,
       assistant_message = Some
         \<lparr> message_id = ''a1'', conversation_id = ''c1'', role = ''assistant'',
           content_text = ''Hi there'', created_at_utc = ''2024-01-01T00:00:02Z'',
           client_request_id = None, attachments = [] \<rparr>,
       reason = ''completed'', usage = [(''input_tokens'', 1), (''output_tokens'', 2)],
       capability_warnings = [], error = None \<rparr>"

definition hello_task :: task where
  "hello_task =
     \<lparr> task_call =
         \<lparr> call_conversation_id = ''c1'', call_content_text = ''hello'',
           call_attachments = [], call_trace_id = Some ''t1'',
           call_user_message_id = Some ''u1'', call_client_request_id = None \<rparr>,
       task_done = False \<rparr>"

definition second_task :: task where
  "second_task =
     \<lparr> task_call =
         \<lparr> call_conversation_id = ''c1'', call_content_text = ''hello'',
           call_attachments = [], call_trace_id = Some ''t2'',
           call_user_message_id = Some ''u2'', call_client_request_id = None \<rparr>,
       task_done = False \<rparr>"

definition held_session :: session where
  "held_session = running_session \<lparr> current_task := Some (hello_task \<lparr> task_done := True \<rparr>) \<rparr>"

definition second_result :: TurnResult where
  "second_result =
     \<lparr> trace_id = ''t2'',
       user_message =
         \<lparr> message_id = ''u2'', conversation_id = ''c1'', role = ''user'',
           content_text = ''hello'', created_at_utc = ''2024-01-01T00:00:03Z'',
           client_request_id = None, attachments = [] \<rparr>,
       assistant_message = Some
         \<lparr> message_id = ''a2'', conversation_id = ''c1'', role = ''assistant'',
           content_text = ''Hi there'', created_at_utc = ''2024-01-01T00:00:04Z'',
           client_request_id = None, attachments = [] \<rparr>,
       reason = ''completed'', usage = [(''input_tokens'', 1), (''output_tokens'', 2)],
       capability_warnings = [], error = None \<rparr>"

definition wiped_session :: session where
  "wiped_session =
     \<lparr> path_conversation_id = Some ''c1'', current_task = None, current_cancel = None,
       current_trace_id = None,
       sent = [AssistantDone ''t1'' ''completed'' (Some ''a1'')
                 [(''input_tokens'', 1), (''output_tokens'', 2)] [] None],
       published =
         [(''alpha.message.received'',
           \<lparr> event_id = ''e0'', event_trace_id = ''t1'',
             occurred_at_utc = ''2024-01-01T00:00:01Z'', producer = ''core.gateway'',
             event_type = ''message.received'', version = 1, privacy = ''normal'',
             notify_policy = ''none'',
             payload = [(''conversation_id'', ''c1''), (''message_id'', ''u1'')],
             idempotency_key = None \<rparr>),
          (''alpha.message.received'',
           \<lparr> event_id = ''e5'', event_trace_id = ''t2'',
             occurred_at_utc = ''2024-01-01T00:00:02Z'', producer = ''core.gateway'',
             event_type = ''message.received'', version = 1, privacy = ''normal'',
             notify_policy = ''none'',
             payload = [(''conversation_id'', ''c1''), (''message_id'', ''u2'')],
             idempotency_key = None \<rparr>)] \<rparr>"

section \<open>Properties of the message log\<close>

lemma find_snoc:
  "find P (xs @ [x]) =
     (case find P xs of None \<Rightarrow> (if P x then Some x else None) | Some y \<Rightarrow> Some y)"
  by (induction xs) simp_all

lemma select_idempotent_hit:
  "select_idempotent tbl cid k = Some r
     \<Longrightarrow> conversation_id r = cid \<and> client_request_id r = Some k"
  unfolding select_idempotent_def by (auto simp: find_Some_iff)

lemma select_idempotent_miss:
  "select_idempotent tbl cid k = None
     \<longleftrightarrow> (cid, Some k) \<notin> set (map (\<lambda>x. (conversation_id x, client_request_id x)) tbl)"
  unfolding select_idempotent_def by (auto simp: find_None_iff)

text \<open>
  With a key that is not empty, a retry returns the row of the first call and leaves
  the table as it is, whatever else the retry passes.
\<close>

lemma create_message_retry:
  assumes key: "k \<noteq> []"
    and first: "create_message now tbl mid cid rl txt (Some k) atts = Inr (row, tbl')"
  shows "create_message now2 tbl' mid2 cid rl2 txt2 (Some k) atts2 = Inr (row, tbl')"
proof (cases "select_idempotent tbl cid k")
  case (Some r)
  with key first have "row = r" "tbl' = tbl"
    by (simp_all add: create_message_def Let_def)
  with key Some show ?thesis
    by (simp add: create_message_def Let_def)
next
  case None
  let ?new = "\<lparr> message_id = mid, conversation_id = cid, role = rl, content_text = txt,
                  created_at_utc = now, client_request_id = Some k,
                  attachments = (case atts of None \<Rightarrow> [] | Some a \<Rightarrow> a) \<rparr>"
  from key first None have ins: "insert_row tbl ?new = Inr tbl'" and row: "row = ?new"
    by (auto simp add: create_message_def Let_def split: sum.splits)
  from ins have tbl': "tbl' = tbl @ [?new]"
    by (simp add: insert_row_def split: if_splits)
  from None have "select_idempotent tbl' cid k = Some ?new"
    unfolding tbl' select_idempotent_def by (simp add: find_snoc)
  with key row show ?thesis
    by (simp add: create_message_def Let_def)
qed

text \<open>
  A later call under another key, with an unused message id and a key not yet in the
  conversation, appends a row of its own.
\<close>

lemma create_message_other_key:
  assumes first: "create_message now tbl mid cid rl txt (Some k) atts = Inr (row, tbl')"
    and key: "k \<noteq> []"
    and other: "crid3 \<noteq> Some k"
    and fresh_id: "mid3 \<notin> set (map message_id tbl')"
    and unused: "(cid, crid3) \<notin> set (map (\<lambda>x. (conversation_id x, client_request_id x)) tbl')"
  shows "\<exists>row3. create_message now3 tbl' mid3 cid rl3 txt3 crid3 atts3 = Inr (row3, tbl' @ [row3])
           \<and> message_id row3 = mid3 \<and> content_text row3 = txt3
           \<and> row3 \<noteq> row \<and> row3 \<notin> set tbl'"
proof -
  let ?new = "\<lparr> message_id = mid3, conversation_id = cid, role = rl3, content_text = txt3,
                  created_at_utc = now3, client_request_id = crid3,
                  attachments = (case atts3 of None \<Rightarrow> [] | Some a \<Rightarrow> a) \<rparr>"
  have miss: "\<And>k3. crid3 = Some k3 \<Longrightarrow> select_idempotent tbl' cid k3 = None"
    using unused by (simp add: select_idempotent_miss)
  have ins: "insert_row tbl' ?new = Inr (tbl' @ [?new])"
    using fresh_id unused by (simp add: insert_row_def)
  have res: "create_message now3 tbl' mid3 cid rl3 txt3 crid3 atts3 = Inr (?new, tbl' @ [?new])"
    using ins miss by (cases crid3) (auto simp add: create_message_def Let_def)
  have "client_request_id row = Some k"
  proof (cases "select_idempotent tbl cid k")
    case (Some r)
    with key first have "row = r" by (simp add: create_message_def Let_def)
    with Some show ?thesis by (simp add: select_idempotent_hit)
  next
    case None
    with key first show ?thesis
      by (auto simp add: create_message_def Let_def split: sum.splits)
  qed
  with other have "?new \<noteq> row" by auto
  moreover have "?new \<notin> set tbl'" using fresh_id by force
  ultimately show ?thesis using res by simp
qed

text \<open>
  Claim C1. Calling \<^verbatim>\<open>create_message\<close> twice with the same conversation and the same
  \<^verbatim>\<open>client_request_id\<close>, which is not \<^verbatim>\<open>None\<close>, should return the first row both times.
  With the empty string as the key, on an empty table, the first call stores its row
  and the retry, with other content, raises the uniqueness error of the index instead
  of returning that row.
\<close>

theorem create_message_empty_request_id_retry_fails:
  "create_message ''2024-01-01T00:00:01Z'' [] ''m1'' ''c1'' ''user'' ''first'' (Some []) None
     = Inr (first_row, [first_row])
   \<and> create_message ''2024-01-01T00:00:02Z'' [first_row] ''m2'' ''c1'' ''user'' ''second''
        (Some []) None
     = Inl (IntegrityError
         ''UNIQUE constraint failed: messages.conversation_id, messages.client_request_id'')"
  by (simp add: create_message_def insert_row_def first_row_def Let_def)

text \<open>
  Claim C10. With the empty string as \<^verbatim>\<open>client_request_id\<close> no lookup is made: a call
  that returns has inserted its own row at the end of the table, also when the table
  held a row under that key before. The index covers the empty string, so a second
  call for the same conversation with the empty string raises the store's uniqueness
  error, whatever message id and content it passes.
\<close>

theorem empty_request_id_second_call_raises:
  assumes "create_message now tbl mid cid rl txt (Some []) atts = Inr (row, tbl')"
  shows "row = \<lparr> message_id = mid, conversation_id = cid, role = rl, content_text = txt,
                 created_at_utc = now, client_request_id = Some [],
                 attachments = (case atts of None \<Rightarrow> [] | Some a \<Rightarrow> a) \<rparr>
         \<and> tbl' = tbl @ [row]
         \<and> (\<exists>m. create_message now2 tbl' mid2 cid rl2 txt2 (Some []) atts2
                  = Inl (IntegrityError m))"
  using assms
  by (auto simp add: create_message_def insert_row_def Let_def split: if_splits)

theorem empty_request_id_second_call_raises_witness:
  "create_message ''2024-01-01T00:00:01Z'' [] ''m1'' ''c1'' ''user'' ''hello'' (Some []) None
     = Inr (\<lparr> message_id = ''m1'', conversation_id = ''c1'', role = ''user'',
               content_text = ''hello'', created_at_utc = ''2024-01-01T00:00:01Z'',
               client_request_id = Some [], attachments = [] \<rparr>,
            [\<lparr> message_id = ''m1'', conversation_id = ''c1'', role = ''user'',
               content_text = ''hello'', created_at_utc = ''2024-01-01T00:00:01Z'',
               client_request_id = Some [], attachments = [] \<rparr>])
   \<and> (\<exists>m. create_message ''2024-01-01T00:00:05Z''
              [\<lparr> message_id = ''m1'', conversation_id = ''c1'', role = ''user'',
                 content_text = ''hello'', created_at_utc = ''2024-01-01T00:00:01Z'',
                 client_request_id = Some [], attachments = [] \<rparr>]
              ''m2'' ''c1'' ''user'' ''hello again'' (Some []) None
            = Inl (IntegrityError m))"
proof -
  let ?row = "\<lparr> message_id = ''m1'', conversation_id = ''c1'', role = ''user'',
                  content_text = ''hello'', created_at_utc = ''2024-01-01T00:00:01Z'',
                  client_request_id = Some [], attachments = [] \<rparr>"
  have h: "create_message ''2024-01-01T00:00:01Z'' [] ''m1'' ''c1'' ''user'' ''hello''
             (Some []) None = Inr (?row, [?row])"
    by (simp add: create_message_def insert_row_def Let_def)
  from empty_request_id_second_call_raises [OF h,
      of "''2024-01-01T00:00:05Z''" "''m2''" "''user''" "''hello again''" None]
  show ?thesis using h by simp
qed

lemma sorted_order_by_created_asc:
  "sorted (map created_at_utc (order_by_created_asc rows))"
  by (simp add: order_by_created_asc_def)

lemma mset_order_by_created_asc: "mset (order_by_created_asc rows) = mset rows"
  by (simp add: order_by_created_asc_def)

lemma rev_sql_limit_desc:
  "rev (sql_limit n (order_by_created_desc rows)) =
     (if n < 0 then sort_key created_at_utc (rev rows)
      else drop (length rows - nat n) (sort_key created_at_utc (rev rows)))"
  by (simp add: sql_limit_def order_by_created_desc_def rev_take)

lemma list_messages_sorted: "sorted (map created_at_utc (list_messages tbl cid limit before))"
proof (cases limit)
  case None
  then show ?thesis by (simp add: list_messages_def sorted_order_by_created_asc)
next
  case (Some n)
  have "sorted (map created_at_utc (sort_key created_at_utc rows))" for rows :: "MessageRow list"
    by simp
  then have "sorted (map created_at_utc (drop k (sort_key created_at_utc rows)))"
    for rows :: "MessageRow list" and k
    by (simp add: drop_map[symmetric] sorted_wrt_drop del: sorted_sort_key)
  with Some show ?thesis
    by (simp add: list_messages_def rev_sql_limit_desc del: drop_map)
qed

lemma list_messages_subset:
  "set (list_messages tbl cid limit before) \<subseteq> set (filter (where_clause cid before) tbl)"
proof (cases limit)
  case None
  then show ?thesis by (simp add: list_messages_def order_by_created_asc_def)
next
  case (Some n)
  let ?rows = "filter (where_clause cid before) tbl"
  have "set (drop k (sort_key created_at_utc (rev ?rows))) \<subseteq> set ?rows" for k
    using set_drop_subset [of k "sort_key created_at_utc (rev ?rows)"] by simp
  moreover have "set (sort_key created_at_utc (rev ?rows)) \<subseteq> set ?rows" by simp
  ultimately show ?thesis
    unfolding Some list_messages_def option.case rev_sql_limit_desc by presburger
qed

lemma list_messages_page:
  assumes "0 \<le> n"
  shows "length (list_messages tbl cid (Some n) before)
           = min (nat n) (length (filter (where_clause cid before) tbl))"
    and "\<exists>older. mset (filter (where_clause cid before) tbl)
                    = mset older + mset (list_messages tbl cid (Some n) before)
           \<and> (\<forall>x\<in>set older. \<forall>y\<in>set (list_messages tbl cid (Some n) before).
                  created_at_utc x \<le> created_at_utc y)"
proof -
  let ?cands = "filter (where_clause cid before) tbl"
  let ?page = "list_messages tbl cid (Some n) before"
  let ?S = "sort_key created_at_utc (rev ?cands)"
  let ?k = "length ?cands - nat n"
  have page: "?page = drop ?k ?S"
    using assms(1) by (simp add: list_messages_def rev_sql_limit_desc)
  show "length ?page = min (nat n) (length ?cands)"
    unfolding page by simp
  have split: "?S = take ?k ?S @ ?page" unfolding page by simp
  have "sorted (map created_at_utc (take ?k ?S @ ?page))"
    using split sorted_sort_key [of created_at_utc "rev ?cands"] by simp
  then have le: "\<forall>x\<in>set (take ?k ?S). \<forall>y\<in>set ?page. created_at_utc x \<le> created_at_utc y"
    by (auto simp add: sorted_append)
  have "mset ?cands = mset ?S" by simp
  also have "\<dots> = mset (take ?k ?S) + mset ?page"
    using split by (metis mset_append)
  finally show "\<exists>older. mset ?cands = mset older + mset ?page
           \<and> (\<forall>x\<in>set older. \<forall>y\<in>set ?page. created_at_utc x \<le> created_at_utc y)"
    using le by blast
qed

lemma list_messages_hd_oldest:
  assumes "y \<in> set (list_messages tbl cid limit before)"
  shows "created_at_utc (hd (list_messages tbl cid limit before)) \<le> created_at_utc y"
proof -
  let ?p = "list_messages tbl cid limit before"
  from assms obtain x xs where p: "?p = x # xs" by (cases ?p) auto
  have "sorted (map created_at_utc ?p)" by (rule list_messages_sorted)
  with p assms show ?thesis by auto
qed

lemma list_messages_before:
  assumes "b \<noteq> []" and "y \<in> set (list_messages tbl cid limit (Some b))"
  shows "created_at_utc y < b"
  using assms list_messages_subset [of tbl cid limit "Some b"]
  by (auto simp add: where_clause_def)

lemma next_page_older:
  assumes "page1 = list_messages tbl cid limit1 before1"
    and "created_at_utc (hd page1) \<noteq> []"
    and x: "x \<in> set (list_messages tbl cid limit2 (Some (created_at_utc (hd page1))))"
    and y: "y \<in> set page1"
  shows "created_at_utc x < created_at_utc y"
proof -
  from x assms(2) have "created_at_utc x < created_at_utc (hd page1)"
    by (rule list_messages_before[rotated])
  moreover from y have "created_at_utc (hd page1) \<le> created_at_utc y"
    unfolding assms(1) by (rule list_messages_hd_oldest)
  ultimately show ?thesis by simp
qed

lemma next_page_disjoint:
  assumes "page1 = list_messages tbl cid limit1 before1"
    and "created_at_utc (hd page1) \<noteq> []"
  shows "set (list_messages tbl cid limit2 (Some (created_at_utc (hd page1)))) \<inter> set page1 = {}"
  using next_page_older [OF assms] by fastforce

lemmas example_defs = three_messages_def msg_1_def msg_2_def msg_3_def

lemmas list_messages_defs =
  list_messages_def where_clause_def order_by_created_asc_def order_by_created_desc_def
  sql_limit_def

lemma where_clause_supplied:
  "before \<noteq> Some [] \<Longrightarrow>
     where_clause cid before =
       (\<lambda>r. conversation_id r = cid
              \<and> (case before of None \<Rightarrow> True | Some ts \<Rightarrow> created_at_utc r < ts))"
  by (auto simp add: where_clause_def fun_eq_iff split: option.splits)

text \<open>
  Claim C8. Without a limit and a cursor, \<^verbatim>\<open>list_messages\<close> returns the messages of the
  conversation, all of them, in non-decreasing \<^verbatim>\<open>created_at_utc\<close> order. With a limit
  \<open>n\<close> and a cursor that is absent or a timestamp, it returns a page in ascending order
  that holds \<open>n\<close> of the messages strictly before the cursor (all of them when there
  are fewer), and every message left out is no later than every message of the page.
  The first row of a page is its oldest; asking again with \<^verbatim>\<open>before\<close> set to that row's
  timestamp returns only rows strictly older than every row of the page, so no row of
  the page, and going on in this way no row of any page before.
\<close>

theorem list_messages_oldest_first_pages:
  "sorted (map created_at_utc (list_messages tbl cid None None))
   \<and> mset (list_messages tbl cid None None) = mset (filter (\<lambda>r. conversation_id r = cid) tbl)
   \<and> (0 \<le> n \<and> before \<noteq> Some [] \<longrightarrow>
        sorted (map created_at_utc (list_messages tbl cid (Some n) before))
        \<and> length (list_messages tbl cid (Some n) before)
            = min (nat n)
                (length (filter (\<lambda>r. conversation_id r = cid
                           \<and> (case before of None \<Rightarrow> True
                               | Some ts \<Rightarrow> created_at_utc r < ts)) tbl))
        \<and> (\<exists>older.
              mset (filter (\<lambda>r. conversation_id r = cid
                      \<and> (case before of None \<Rightarrow> True
                          | Some ts \<Rightarrow> created_at_utc r < ts)) tbl)
                = mset older + mset (list_messages tbl cid (Some n) before)
              \<and> (\<forall>x\<in>set older. \<forall>y\<in>set (list_messages tbl cid (Some n) before).
                    created_at_utc x \<le> created_at_utc y)))
   \<and> (page1 = list_messages tbl cid limit1 before1 \<and> page1 \<noteq> []
        \<and> created_at_utc (hd page1) \<noteq> [] \<longrightarrow>
        (\<forall>y\<in>set page1. created_at_utc (hd page1) \<le> created_at_utc y)
        \<and> (\<forall>x\<in>set (list_messages tbl cid limit2 (Some (created_at_utc (hd page1)))).
              \<forall>y\<in>set page1. created_at_utc x < created_at_utc y)
        \<and> set (list_messages tbl cid limit2 (Some (created_at_utc (hd page1)))) \<inter> set page1 = {})"
proof (intro conjI impI)
  show "sorted (map created_at_utc (list_messages tbl cid None None))"
    by (rule list_messages_sorted)
  show "mset (list_messages tbl cid None None) = mset (filter (\<lambda>r. conversation_id r = cid) tbl)"
    by (simp add: list_messages_def mset_order_by_created_asc where_clause_def)
next
  assume h: "0 \<le> n \<and> before \<noteq> Some []"
  show "sorted (map created_at_utc (list_messages tbl cid (Some n) before))"
    by (rule list_messages_sorted)
  from h list_messages_page(1) [where n = n and tbl = tbl and cid = cid and before = before]
  show "length (list_messages tbl cid (Some n) before)
            = min (nat n)
                (length (filter (\<lambda>r. conversation_id r = cid
                           \<and> (case before of None \<Rightarrow> True
                               | Some ts \<Rightarrow> created_at_utc r < ts)) tbl))"
    by (simp add: where_clause_supplied)
  from h list_messages_page(2) [where n = n and tbl = tbl and cid = cid and before = before]
  show "\<exists>older.
              mset (filter (\<lambda>r. conversation_id r = cid
                      \<and> (case before of None \<Rightarrow> True
                          | Some ts \<Rightarrow> created_at_utc r < ts)) tbl)
                = mset older + mset (list_messages tbl cid (Some n) before)
              \<and> (\<forall>x\<in>set older. \<forall>y\<in>set (list_messages tbl cid (Some n) before).
                    created_at_utc x \<le> created_at_utc y)"
    by (simp add: where_clause_supplied)
next
  assume h: "page1 = list_messages tbl cid limit1 before1 \<and> page1 \<noteq> []
        \<and> created_at_utc (hd page1) \<noteq> []"
  then show "\<forall>y\<in>set page1. created_at_utc (hd page1) \<le> created_at_utc y"
    by (simp add: list_messages_hd_oldest)
  from h show "\<forall>x\<in>set (list_messages tbl cid limit2 (Some (created_at_utc (hd page1)))).
              \<forall>y\<in>set page1. created_at_utc x < created_at_utc y"
    using next_page_older [of page1 tbl cid limit1 before1 _ limit2] by blast
  from h show "set (list_messages tbl cid limit2 (Some (created_at_utc (hd page1)))) \<inter> set page1 = {}"
    using next_page_disjoint [of page1 tbl cid limit1 before1 limit2] by blast
qed

theorem list_messages_oldest_first_pages_witness:
  "(0::int) \<le> 2 \<and> (None :: string option) \<noteq> Some []
   \<and> list_messages three_messages ''c1'' (Some 2) None = [msg_2, msg_3]
   \<and> created_at_utc (hd [msg_2, msg_3]) = ''2024-01-01T00:00:02Z''
   \<and> sorted (map created_at_utc (list_messages three_messages ''c1'' None None))
   \<and> length (list_messages three_messages ''c1'' (Some 2) None) = 2
   \<and> list_messages three_messages ''c1'' (Some 2) (Some ''2024-01-01T00:00:02Z'') = [msg_1]
   \<and> set (list_messages three_messages ''c1'' (Some 2) (Some ''2024-01-01T00:00:02Z''))
        \<inter> set [msg_2, msg_3] = {}"
proof -
  have p1: "list_messages three_messages ''c1'' (Some 2) None = [msg_2, msg_3]"
    by (simp add: list_messages_defs example_defs)
  have ts: "created_at_utc (hd [msg_2, msg_3]) = ''2024-01-01T00:00:02Z''"
    by (simp add: msg_2_def)
  have p2: "list_messages three_messages ''c1'' (Some 2) (Some ''2024-01-01T00:00:02Z'') = [msg_1]"
    by (simp add: list_messages_defs example_defs)
  have len: "length (filter (\<lambda>r. conversation_id r = ''c1''
                \<and> (case None :: string option of None \<Rightarrow> True | Some ts \<Rightarrow> created_at_utc r < ts))
                three_messages) = 3"
    by (simp add: example_defs)
  note t = list_messages_oldest_first_pages
      [of three_messages "''c1''" 2 None "[msg_2, msg_3]" "Some 2" None "Some 2"]
  from t p1 ts have "sorted (map created_at_utc (list_messages three_messages ''c1'' None None))"
    and "length (list_messages three_messages ''c1'' (Some 2) None) = min (nat 2) 3"
    and "set (list_messages three_messages ''c1'' (Some 2) (Some ''2024-01-01T00:00:02Z''))
        \<inter> set [msg_2, msg_3] = {}"
    unfolding len by simp_all
  with p1 p2 ts show ?thesis by simp
qed

section \<open>Properties of the list endpoint\<close>

lemma endpoint_items:
  assumes "list_messages_endpoint tbl cid limit_param before = Inr (items, nb)"
  shows "\<exists>ts. items = list_messages tbl cid
                  (Some (case limit_param of None \<Rightarrow> 50 | Some n \<Rightarrow> n)) ts"
    and "1 \<le> (case limit_param of None \<Rightarrow> 50 | Some n \<Rightarrow> n)"
    and "nb = (if int (length items) = (case limit_param of None \<Rightarrow> 50 | Some n \<Rightarrow> n)
               then Some (message_id (last items)) else None)"
  using assms
  by (auto simp add: list_messages_endpoint_def Let_def
        split: if_splits sum.splits option.splits) metis+

text \<open>
  A cursor is returned only with a full page, and it is the id of the last item, which
  no item of the page is later than.
\<close>

lemma next_before_full_page:
  assumes "list_messages_endpoint tbl cid limit_param before = Inr (items, Some cursor)"
  shows "int (length items) = (case limit_param of None \<Rightarrow> 50 | Some n \<Rightarrow> n)
         \<and> items \<noteq> [] \<and> cursor = message_id (last items)
         \<and> (\<forall>y\<in>set items. created_at_utc y \<le> created_at_utc (last items))"
proof -
  let ?limit = "case limit_param of None \<Rightarrow> 50 | Some n \<Rightarrow> n"
  note e = endpoint_items [OF assms]
  from e(3) have full: "int (length items) = ?limit" and cur: "cursor = message_id (last items)"
    by (simp_all split: if_splits)
  from e(1) have srt: "sorted (map created_at_utc items)"
    using list_messages_sorted by blast
  from full e(2) have ne: "items \<noteq> []" by auto
  from srt have "sorted (map created_at_utc (butlast items @ [last items]))" using ne by simp
  then have "\<forall>y\<in>set (butlast items). created_at_utc y \<le> created_at_utc (last items)"
    by (simp add: sorted_append del: append_butlast_last_id)
  moreover have "set items = insert (last items) (set (butlast items))"
    using ne by (metis append_butlast_last_id list.simps(15) rotate1.simps(2) set_rotate1)
  ultimately show ?thesis using full ne cur by auto
qed

text \<open>
  Claim C2. \<^verbatim>\<open>next_before\<close> should name the oldest item of a full page, so that the
  next request returns nothing already seen. With three messages and \<^verbatim>\<open>limit=2\<close> the
  endpoint returns the page of \<open>m2\<close> and \<open>m3\<close> with the cursor \<open>m3\<close>, the newest item
  (\<^verbatim>\<open>items[-1]\<close> of a list in ascending order); following the cursor returns \<open>m1\<close>
  and \<open>m2\<close>, and \<open>m2\<close> was on the page before.
\<close>

theorem next_before_is_newest_item:
  "list_messages_endpoint three_messages ''c1'' (Some 2) None = Inr ([msg_2, msg_3], Some ''m3'')
   \<and> list_messages_endpoint three_messages ''c1'' (Some 2) (Some ''m3'')
       = Inr ([msg_1, msg_2], Some ''m2'')"
  by (simp add: list_messages_endpoint_def get_message_def list_messages_defs example_defs Let_def)

section \<open>Properties of the turn orchestrator\<close>

text \<open>
  While the signal is not seen set, the loop forwards every fragment it gets and keeps
  it in \<^verbatim>\<open>out_text_parts\<close>.
\<close>

lemma consume_yields:
  assumes "\<forall>i < length frags. \<not> cancel (Suc (t + i))"
  shows "consume cancel (map Yield frags @ rest) t parts w =
           consume cancel rest (t + length frags) (parts @ frags)
             (w\<lparr> callbacks := callbacks w @ map OnDelta frags \<rparr>)"
  using assms
proof (induction frags arbitrary: t parts w)
  case Nil
  then show ?case by simp
next
  case (Cons d frags)
  from Cons.prems have now: "\<not> cancel (Suc t)" by force
  from Cons.prems have later: "\<forall>i < length frags. \<not> cancel (Suc (Suc t + i))" by force
  show ?case
    using now Cons.IH [OF later, of "parts @ [d]" "on_delta d w"]
    by (simp add: on_delta_def)
qed

text \<open>The loop changes nothing but the list of callbacks, to which it adds deltas.\<close>

lemma consume_world:
  "consume cancel items t parts w = (how, t', parts', w')
     \<Longrightarrow> \<exists>ds. parts' = parts @ ds \<and> w' = w\<lparr> callbacks := callbacks w @ map OnDelta ds \<rparr>"
proof (induction cancel items t parts w rule: consume.induct)
  case (1 cancel t parts w)
  then show ?case by simp
next
  case (2 cancel e rest t parts w)
  then show ?case by simp
next
  case (3 cancel delta rest t parts w)
  show ?case
  proof (cases "cancel (Suc t)")
    case True
    with 3 show ?thesis by simp
  next
    case False
    with 3 obtain ds where "parts' = (parts @ [delta]) @ ds"
      and "w' = (on_delta delta w)\<lparr> callbacks := callbacks (on_delta delta w) @ map OnDelta ds \<rparr>"
      by auto
    then have "parts' = parts @ (delta # ds) \<and> w' = w\<lparr> callbacks := callbacks w @ map OnDelta (delta # ds) \<rparr>"
      by (simp add: on_delta_def)
    then show ?thesis by blast
  qed
qed


lemma consume_until_break:
  assumes "\<forall>t \<le> length frags. \<not> cancel t" and "cancel (Suc (length frags))"
    and "rest = [] \<or> (\<exists>d rest'. rest = Yield d # rest')"
  shows "\<exists>how. consume cancel (map Yield frags @ rest) 0 [] w =
           (how, Suc (length frags), frags, w\<lparr> callbacks := callbacks w @ map OnDelta frags \<rparr>)
         \<and> how \<in> {Exhausted, Broke}"
proof -
  from assms(1) have "\<forall>i < length frags. \<not> cancel (Suc (0 + i))" by auto
  from consume_yields [OF this, of rest "[]" w]
  have "consume cancel (map Yield frags @ rest) 0 [] w =
          consume cancel rest (length frags) frags
            (w\<lparr> callbacks := callbacks w @ map OnDelta frags \<rparr>)"
    by simp
  with assms(2,3) show ?thesis by auto
qed

lemma consume_until_raise:
  assumes "\<forall>t \<le> length frags. \<not> cancel t"
  shows "consume cancel (map Yield frags @ Raise e # rest) 0 [] w =
           (Failed e, Suc (length frags), frags,
            w\<lparr> callbacks := callbacks w @ map OnDelta frags \<rparr>)"
proof -
  from assms have "\<forall>i < length frags. \<not> cancel (Suc (0 + i))" by auto
  from consume_yields [OF this, of "Raise e # rest" "[]" w]
  show ?thesis by simp
qed

lemma consume_to_end:
  assumes "\<forall>t \<le> length frags. \<not> cancel t"
  shows "consume cancel (map Yield frags) 0 [] w =
           (Exhausted, Suc (length frags), frags,
            w\<lparr> callbacks := callbacks w @ map OnDelta frags \<rparr>)"
proof -
  from assms have "\<forall>i < length frags. \<not> cancel (Suc (0 + i))" by auto
  from consume_yields [OF this, of "[]" "[]" w]
  show ?thesis by simp
qed

lemmas world_steps = orchestrator_publish_def publish_def on_status_def no_usage_def

text \<open>
  Claim C3, as amended. When one of the checks of \<^verbatim>\<open>run_turn\<close> sees the cancellation
  signal set (the check before generation, the check on a step of the stream after
  the fragments \<open>frags\<close> were forwarded, or the check after the stream has ended without
  an exception), the call returns \<^verbatim>\<open>reason="cancelled"\<close> with zero usage and without an
  assistant message. The table is as storing the user message left it, that message's
  event is the only one published, and the fragments forwarded before are the only
  deltas: the partial text is dropped. A signal that no check gets to see, because the
  provider raises first, does not make the call a cancelled one.
\<close>

theorem run_turn_cancelled:
  assumes stored:
    "create_message (now_user_message env) (store w)
       (py_or (call_user_message_id call) (gen_user_message_id env))
       (call_conversation_id call) ''user'' (call_content_text call)
       (call_client_request_id call) (Some (call_attachments call)) = Inr (user_row, tbl1)"
    and observed:
    "cancel 0
     \<or> (llm orch (turn_context orch tbl1 (call_conversation_id call) user_row
                   (call_content_text call)) = map Yield frags @ rest
        \<and> (rest = [] \<or> (\<exists>d rest'. rest = Yield d # rest'))
        \<and> (\<forall>t \<le> length frags. \<not> cancel t) \<and> cancel (Suc (length frags)))"
  shows "fst (run_turn orch env cancel call w) =
           Inr \<lparr> trace_id = py_or (call_trace_id call) (gen_trace_id env),
                 user_message = user_row, assistant_message = None, reason = ''cancelled'',
                 usage = [(''input_tokens'', 0), (''output_tokens'', 0)],
                 capability_warnings = [], error = None \<rparr>
         \<and> store (snd (run_turn orch env cancel call w)) = tbl1
         \<and> map (payload \<circ> snd) (bus (snd (run_turn orch env cancel call w))) =
             map (payload \<circ> snd) (bus w)
             @ [[(''conversation_id'', call_conversation_id call),
                 (''message_id'', message_id user_row), (''role'', ''user'')]]
         \<and> callbacks (snd (run_turn orch env cancel call w)) =
             callbacks w
             @ (if cancel 0 then [OnStatus ''queued'']
                else [OnStatus ''queued'', OnStatus ''thinking'', OnStatus ''streaming'']
                     @ map OnDelta frags)"
proof (cases "cancel 0")
  case True
  with stored show ?thesis
    by (simp add: run_turn_def Let_def world_steps)
next
  case False
  with observed have
    script: "llm orch (turn_context orch tbl1 (call_conversation_id call) user_row
                   (call_content_text call)) = map Yield frags @ rest"
    and rest: "rest = [] \<or> (\<exists>d rest'. rest = Yield d # rest')"
    and quiet: "\<forall>t \<le> length frags. \<not> cancel t" and set: "cancel (Suc (length frags))"
    by simp_all
  define w4 where
    "w4 = on_status ''streaming'' (on_status ''thinking'' (on_status ''queued''
            (orchestrator_publish ''message.stored''
               (py_or (call_trace_id call) (gen_trace_id env))
               [(''conversation_id'', call_conversation_id call),
                (''message_id'', message_id user_row), (''role'', ''user'')]
               (gen_user_event_id env) (now_user_event env) (w\<lparr> store := tbl1 \<rparr>))))"
  from consume_until_break [OF quiet set rest, of w4]
  obtain how where
    run: "consume cancel (map Yield frags @ rest) 0 [] w4 =
       (how, Suc (length frags), frags, w4\<lparr> callbacks := callbacks w4 @ map OnDelta frags \<rparr>)"
    and how: "how = Exhausted \<or> how = Broke"
    by auto
  have ctx: "store (orchestrator_publish a b c d e (w\<lparr> store := tbl1 \<rparr>)) = tbl1" for a b c d e
    by (simp add: orchestrator_publish_def)
  from how show ?thesis
    using stored False script set run
    by (auto simp add: run_turn_def Let_def w4_def ctx world_steps)
qed


lemma store_after_publish:
  "store (orchestrator_publish etype tid pl new_id now (w\<lparr> store := tbl \<rparr>)) = tbl"
  by (simp add: orchestrator_publish_def)

text \<open>
  Claim C4. When the provider raises, after the fragments \<open>frags\<close> (none, or more) were
  forwarded with the signal not seen set, the call returns \<^verbatim>\<open>reason="error"\<close> with the
  error \<^verbatim>\<open>{code: UNAVAILABLE, message: str(e)}\<close> and the warning that the capability
  \<open>llm\<close> is down. No assistant message is stored or announced, and the fragments
  forwarded before stay in the list of delta callbacks.
\<close>

theorem run_turn_generation_error:
  assumes stored:
    "create_message (now_user_message env) (store w)
       (py_or (call_user_message_id call) (gen_user_message_id env))
       (call_conversation_id call) ''user'' (call_content_text call)
       (call_client_request_id call) (Some (call_attachments call)) = Inr (user_row, tbl1)"
    and script:
    "llm orch (turn_context orch tbl1 (call_conversation_id call) user_row
                 (call_content_text call)) = map Yield frags @ Raise e # rest"
    and quiet: "\<forall>t \<le> length frags. \<not> cancel t"
  shows "fst (run_turn orch env cancel call w) =
           Inr \<lparr> trace_id = py_or (call_trace_id call) (gen_trace_id env),
                 user_message = user_row, assistant_message = None, reason = ''error'',
                 usage = [(''input_tokens'', 0), (''output_tokens'', 0)],
                 capability_warnings =
                   [[(''name'', ''llm''), (''status'', ''down''), (''notify'', ''explicit'')]],
                 error = Some [(''code'', ''UNAVAILABLE''), (''message'', e)] \<rparr>
         \<and> store (snd (run_turn orch env cancel call w)) = tbl1
         \<and> map (payload \<circ> snd) (bus (snd (run_turn orch env cancel call w))) =
             map (payload \<circ> snd) (bus w)
             @ [[(''conversation_id'', call_conversation_id call),
                 (''message_id'', message_id user_row), (''role'', ''user'')]]
         \<and> callbacks (snd (run_turn orch env cancel call w)) =
             callbacks w
             @ [OnStatus ''queued'', OnStatus ''thinking'', OnStatus ''streaming'']
             @ map OnDelta frags"
proof -
  from quiet have "\<not> cancel 0" by simp
  then show ?thesis
    using stored script consume_until_raise [OF quiet]
    by (simp add: run_turn_def Let_def store_after_publish world_steps)
qed

text \<open>
  Claim C6. When the stream ends without an exception and no check sees the signal
  set, the call returns \<^verbatim>\<open>reason="completed"\<close>. The text of all fragments is stored as a
  new row with the role \<open>assistant\<close> and no \<^verbatim>\<open>client_request_id\<close>, at the end of the
  table; a \<^verbatim>\<open>message.stored\<close> event with the role \<open>assistant\<close> follows the one of the
  user message; the usage counts the whitespace-delimited words of the input text and
  of the output text, and \<open>hello\<close> counts as one. The id drawn for the assistant
  message is not in the table, as a new id is not.
\<close>

theorem run_turn_completed:
  assumes stored:
    "create_message (now_user_message env) (store w)
       (py_or (call_user_message_id call) (gen_user_message_id env))
       (call_conversation_id call) ''user'' (call_content_text call)
       (call_client_request_id call) (Some (call_attachments call)) = Inr (user_row, tbl1)"
    and script:
    "llm orch (turn_context orch tbl1 (call_conversation_id call) user_row
                 (call_content_text call)) = map Yield frags"
    and quiet: "\<forall>t \<le> Suc (length frags). \<not> cancel t"
    and fresh: "gen_assistant_message_id env \<notin> set (map message_id tbl1)"
    and row: "assistant_row =
       \<lparr> message_id = gen_assistant_message_id env,
         conversation_id = call_conversation_id call, role = ''assistant'',
         content_text = concat frags, created_at_utc = now_assistant_message env,
         client_request_id = None, attachments = [] \<rparr>"
  shows "fst (run_turn orch env cancel call w) =
           Inr \<lparr> trace_id = py_or (call_trace_id call) (gen_trace_id env),
                 user_message = user_row, assistant_message = Some assistant_row,
                 reason = ''completed'',
                 usage = [(''input_tokens'', int (length (py_split (call_content_text call)))),
                          (''output_tokens'', int (length (py_split (concat frags))))],
                 capability_warnings = [], error = None \<rparr>
         \<and> store (snd (run_turn orch env cancel call w)) = tbl1 @ [assistant_row]
         \<and> map (\<lambda>(topic, ev). (topic, event_type ev, payload ev))
               (bus (snd (run_turn orch env cancel call w))) =
             map (\<lambda>(topic, ev). (topic, event_type ev, payload ev)) (bus w)
             @ [(''alpha.message.stored'', ''message.stored'',
                 [(''conversation_id'', call_conversation_id call),
                  (''message_id'', message_id user_row), (''role'', ''user'')]),
                (''alpha.message.stored'', ''message.stored'',
                 [(''conversation_id'', call_conversation_id call),
                  (''message_id'', gen_assistant_message_id env), (''role'', ''assistant'')])]
         \<and> callbacks (snd (run_turn orch env cancel call w)) =
             callbacks w
             @ [OnStatus ''queued'', OnStatus ''thinking'', OnStatus ''streaming'']
             @ map OnDelta frags
         \<and> length (py_split ''hello'') = 1"
proof -
  from quiet have q0: "\<not> cancel 0" and qn: "\<not> cancel (Suc (length frags))"
    and q: "\<forall>t \<le> length frags. \<not> cancel t"
    by simp_all
  have ins: "create_message (now_assistant_message env) tbl1 (gen_assistant_message_id env)
               (call_conversation_id call) ''assistant'' (concat frags) None (Some [])
             = Inr (assistant_row, tbl1 @ [assistant_row])"
    using fresh by (simp add: create_message_def insert_row_def Let_def row)
  have hello: "length (py_split ''hello'') = 1"
    by (simp add: py_split_def py_isspace_def)
  show ?thesis
    using stored script q0 qn consume_to_end [OF q] ins hello
    by (simp add: run_turn_def Let_def store_after_publish world_steps row)
qed

text \<open>
  Claim C9. The callbacks of a call come in this order: none when the store raises on
  the user message; \<open>queued\<close> alone when the signal is set at the check before
  generation; otherwise \<open>queued\<close>, \<open>thinking\<close>, \<open>streaming\<close> and after these only
  deltas.
\<close>

theorem run_turn_status_order:
  "\<exists>deltas. callbacks (snd (run_turn orch env cancel call w)) =
     callbacks w
     @ (case create_message (now_user_message env) (store w)
               (py_or (call_user_message_id call) (gen_user_message_id env))
               (call_conversation_id call) ''user'' (call_content_text call)
               (call_client_request_id call) (Some (call_attachments call)) of
          Inl e \<Rightarrow> []
        | Inr stored \<Rightarrow>
            if cancel 0 then [OnStatus ''queued'']
            else [OnStatus ''queued'', OnStatus ''thinking'', OnStatus ''streaming'']
                 @ map OnDelta deltas)"
proof (cases "create_message (now_user_message env) (store w)
       (py_or (call_user_message_id call) (gen_user_message_id env))
       (call_conversation_id call) ''user'' (call_content_text call)
       (call_client_request_id call) (Some (call_attachments call))")
  case (Inl e)
  then show ?thesis by (simp add: run_turn_def Let_def)
next
  case (Inr stored)
  obtain user_row tbl1 where st: "stored = (user_row, tbl1)" by (cases stored)
  show ?thesis
  proof (cases "cancel 0")
    case True
    with Inr st show ?thesis by (simp add: run_turn_def Let_def world_steps)
  next
    case False
    define w4 where
      "w4 = on_status ''streaming'' (on_status ''thinking'' (on_status ''queued''
            (orchestrator_publish ''message.stored''
               (py_or (call_trace_id call) (gen_trace_id env))
               [(''conversation_id'', call_conversation_id call),
                (''message_id'', message_id user_row), (''role'', ''user'')]
               (gen_user_event_id env) (now_user_event env) (w\<lparr> store := tbl1 \<rparr>))))"
    obtain how t parts w5 where
      run: "consume cancel (llm orch (turn_context orch tbl1 (call_conversation_id call)
              user_row (call_content_text call))) 0 [] w4 = (how, t, parts, w5)"
      by (metis prod_cases4)
    from consume_world [OF run] obtain ds where
      w5: "w5 = w4\<lparr> callbacks := callbacks w4 @ map OnDelta ds \<rparr>" by auto
    have cb4: "callbacks w4 = callbacks w @ [OnStatus ''queued'', OnStatus ''thinking'', OnStatus ''streaming'']"
      by (simp add: w4_def world_steps)
    have "callbacks (snd (run_turn orch env cancel call w)) = callbacks w5"
      using Inr st False run
      by (cases how)
         (auto simp add: run_turn_def Let_def store_after_publish w4_def orchestrator_publish_def
            split: sum.splits)
    with w5 cb4 Inr False show ?thesis by auto
  qed
qed


lemma example_fields:
  "call_conversation_id hello_call = ''c1''"
  "call_content_text hello_call = ''hello''"
  "call_attachments hello_call = []"
  "call_trace_id hello_call = None"
  "call_user_message_id hello_call = None"
  "call_client_request_id hello_call = None"
  "gen_trace_id example_env = ''trace-1''"
  "gen_user_message_id example_env = ''u1''"
  "gen_assistant_message_id example_env = ''a1''"
  "now_user_message example_env = ''2024-01-01T00:00:01Z''"
  "now_assistant_message example_env = ''2024-01-01T00:00:02Z''"
  "store empty_world = []"
  "bus empty_world = []"
  "callbacks empty_world = []"
  "message_id hello_row = ''u1''"
  "role hello_row = ''user''"
  by (simp_all add: hello_call_def example_env_def empty_world_def hello_row_def)

lemma hello_stored:
  "create_message (now_user_message example_env) (store empty_world)
     (py_or (call_user_message_id hello_call) (gen_user_message_id example_env))
     (call_conversation_id hello_call) ''user'' (call_content_text hello_call)
     (call_client_request_id hello_call) (Some (call_attachments hello_call))
   = Inr (hello_row, [hello_row])"
  by (simp add: create_message_def insert_row_def Let_def example_env_def hello_call_def
        hello_row_def empty_world_def)

text \<open>
  The provider yields \<open>a\<close>, \<open>b\<close>, \<open>c\<close> and the signal is set from moment \<open>2\<close> on:
  \<open>a\<close> is forwarded, the check on \<open>b\<close> sees the signal.
\<close>

theorem run_turn_cancelled_witness:
  "cancelled_from 2 2
   \<and> fst (run_turn abc_orchestrator example_env (cancelled_from 2) hello_call empty_world) =
       Inr \<lparr> trace_id = ''trace-1'', user_message = hello_row, assistant_message = None,
             reason = ''cancelled'', usage = [(''input_tokens'', 0), (''output_tokens'', 0)],
             capability_warnings = [], error = None \<rparr>
   \<and> store (snd (run_turn abc_orchestrator example_env (cancelled_from 2) hello_call empty_world))
       = [hello_row]
   \<and> callbacks (snd (run_turn abc_orchestrator example_env (cancelled_from 2) hello_call
                       empty_world))
       = [OnStatus ''queued'', OnStatus ''thinking'', OnStatus ''streaming'', OnDelta ''a'']"
proof -
  have observed:
    "cancelled_from 2 0
     \<or> (llm abc_orchestrator (turn_context abc_orchestrator [hello_row]
            (call_conversation_id hello_call) hello_row (call_content_text hello_call))
          = map Yield [''a''] @ [Yield ''b'', Yield ''c'']
        \<and> ([Yield ''b'', Yield ''c''] = [] \<or> (\<exists>d rest'. [Yield ''b'', Yield ''c''] = Yield d # rest'))
        \<and> (\<forall>t \<le> length [''a'']. \<not> cancelled_from 2 t)
        \<and> cancelled_from 2 (Suc (length [''a''])))"
    by (simp add: abc_orchestrator_def new_orchestrator_def cancelled_from_def)
  have now: "cancelled_from 2 2" "\<not> cancelled_from 2 0"
    by (simp_all add: cancelled_from_def)
  from run_turn_cancelled [OF hello_stored observed]
  show ?thesis
    using now by (simp add: example_fields)
qed

text \<open>
  Claim C3 as stated, for every call whose signal becomes set before generation
  finishes, fails: the provider yields \<open>a\<close> and \<open>b\<close>, the checks on them at the moments
  \<open>1\<close> and \<open>2\<close> find the signal not set, the signal is set while the provider works on
  its third step, and that step raises. The \<^verbatim>\<open>except\<close> branch returns
  \<^verbatim>\<open>reason="error"\<close> before any check reads the signal.
\<close>

theorem run_turn_signal_set_then_raise:
  "\<not> cancelled_from 3 0 \<and> \<not> cancelled_from 3 1 \<and> \<not> cancelled_from 3 2 \<and> cancelled_from 3 3
   \<and> llm failing_orchestrator [] = [Yield ''a'', Yield ''b'', Raise ''boom'']
   \<and> fst (run_turn failing_orchestrator example_env (cancelled_from 3) hello_call empty_world) =
       Inr \<lparr> trace_id = ''trace-1'', user_message = hello_row, assistant_message = None,
             reason = ''error'', usage = [(''input_tokens'', 0), (''output_tokens'', 0)],
             capability_warnings =
               [[(''name'', ''llm''), (''status'', ''down''), (''notify'', ''explicit'')]],
             error = Some [(''code'', ''UNAVAILABLE''), (''message'', ''boom'')] \<rparr>"
proof -
  have sig: "\<not> cancelled_from 3 0" "\<not> cancelled_from 3 1" "\<not> cancelled_from 3 2"
    "cancelled_from 3 3"
    by (simp_all add: cancelled_from_def)
  have script: "llm failing_orchestrator ctx = [Yield ''a'', Yield ''b'', Raise ''boom'']" for ctx
    by (simp add: failing_orchestrator_def new_orchestrator_def)
  have early: "\<not> cancelled_from 3 (Suc 0)" "\<not> cancelled_from 3 (Suc (Suc 0))"
    by (simp_all add: cancelled_from_def)
  have res: "fst (run_turn failing_orchestrator example_env (cancelled_from 3) hello_call
                    empty_world) =
       Inr \<lparr> trace_id = ''trace-1'', user_message = hello_row, assistant_message = None,
             reason = ''error'', usage = [(''input_tokens'', 0), (''output_tokens'', 0)],
             capability_warnings =
               [[(''name'', ''llm''), (''status'', ''down''), (''notify'', ''explicit'')]],
             error = Some [(''code'', ''UNAVAILABLE''), (''message'', ''boom'')] \<rparr>"
    using sig(1) early hello_stored
    by (simp add: run_turn_def Let_def script no_usage_def example_fields)
  from sig script res show ?thesis by blast
qed

text \<open>The provider yields \<open>a\<close> and \<open>b\<close> and then raises.\<close>

theorem run_turn_generation_error_witness:
  "fst (run_turn failing_orchestrator example_env never_cancelled hello_call empty_world) =
       Inr \<lparr> trace_id = ''trace-1'', user_message = hello_row, assistant_message = None,
             reason = ''error'', usage = [(''input_tokens'', 0), (''output_tokens'', 0)],
             capability_warnings =
               [[(''name'', ''llm''), (''status'', ''down''), (''notify'', ''explicit'')]],
             error = Some [(''code'', ''UNAVAILABLE''), (''message'', ''boom'')] \<rparr>
   \<and> store (snd (run_turn failing_orchestrator example_env never_cancelled hello_call
                   empty_world)) = [hello_row]
   \<and> callbacks (snd (run_turn failing_orchestrator example_env never_cancelled hello_call
                       empty_world))
       = [OnStatus ''queued'', OnStatus ''thinking'', OnStatus ''streaming'',
          OnDelta ''a'', OnDelta ''b'']"
proof -
  have script:
    "llm failing_orchestrator (turn_context failing_orchestrator [hello_row]
        (call_conversation_id hello_call) hello_row (call_content_text hello_call))
     = map Yield [''a'', ''b''] @ Raise ''boom'' # []"
    by (simp add: failing_orchestrator_def new_orchestrator_def)
  have quiet: "\<forall>t \<le> length [''a'', ''b'']. \<not> never_cancelled t"
    by (simp add: never_cancelled_def)
  from run_turn_generation_error [OF hello_stored script quiet]
  show ?thesis
    by (simp add: example_fields)
qed

text \<open>
  The scenario of the specification: \<open>hello\<close> on conversation \<open>c1\<close> without a
  \<^verbatim>\<open>client_request_id\<close>, on an empty table.
\<close>

theorem run_turn_completed_witness:
  "fst (run_turn greeting_orchestrator example_env never_cancelled hello_call empty_world) =
       Inr \<lparr> trace_id = ''trace-1'', user_message = hello_row,
             assistant_message = Some
               \<lparr> message_id = ''a1'', conversation_id = ''c1'', role = ''assistant'',
                 content_text = ''Hi there'', created_at_utc = ''2024-01-01T00:00:02Z'',
                 client_request_id = None, attachments = [] \<rparr>,
             reason = ''completed'',
             usage = [(''input_tokens'', 1), (''output_tokens'', 2)],
             capability_warnings = [], error = None \<rparr>
   \<and> map role (store (snd (run_turn greeting_orchestrator example_env never_cancelled
                              hello_call empty_world)))
       = [''user'', ''assistant'']"
proof -
  have script:
    "llm greeting_orchestrator (turn_context greeting_orchestrator [hello_row]
        (call_conversation_id hello_call) hello_row (call_content_text hello_call))
     = map Yield [''Hi'', '' there'']"
    by (simp add: greeting_orchestrator_def new_orchestrator_def)
  have quiet: "\<forall>t \<le> Suc (length [''Hi'', '' there'']). \<not> never_cancelled t"
    by (simp add: never_cancelled_def)
  have fresh: "gen_assistant_message_id example_env \<notin> set (map message_id [hello_row])"
    by (simp add: example_fields)
  have words: "py_split ''hello'' = [''hello'']" "py_split ''Hi there'' = [''Hi'', ''there'']"
    by (simp_all add: py_split_def py_isspace_def)
  from run_turn_completed [OF hello_stored script quiet fresh refl]
  show ?thesis
    using words by (simp add: example_fields)
qed

theorem run_turn_status_order_witness:
  "callbacks (snd (run_turn greeting_orchestrator example_env (cancelled_from 0) hello_call
                     empty_world)) = [OnStatus ''queued'']
   \<and> (\<exists>deltas. callbacks (snd (run_turn greeting_orchestrator example_env never_cancelled
                     hello_call empty_world))
        = [OnStatus ''queued'', OnStatus ''thinking'', OnStatus ''streaming'']
          @ map OnDelta deltas)"
proof -
  from run_turn_status_order [of greeting_orchestrator example_env "cancelled_from 0"
      hello_call empty_world]
  have a: "callbacks (snd (run_turn greeting_orchestrator example_env (cancelled_from 0)
             hello_call empty_world)) = [OnStatus ''queued'']"
    unfolding hello_stored by (simp add: cancelled_from_def example_fields)
  from run_turn_status_order [of greeting_orchestrator example_env never_cancelled
      hello_call empty_world]
  have b: "\<exists>deltas. callbacks (snd (run_turn greeting_orchestrator example_env never_cancelled
                     hello_call empty_world))
        = [OnStatus ''queued'', OnStatus ''thinking'', OnStatus ''streaming'']
          @ map OnDelta deltas"
    unfolding hello_stored by (simp add: never_cancelled_def example_fields)
  from a b show ?thesis by simp
qed

section \<open>Properties of the streaming session\<close>









lemma usage_model_None: "usage_model None = [(''input_tokens'', 0), (''output_tokens'', 0)]"
  by (simp add: usage_model_def)


lemma running_session_reachable: "reachable running_session"
  unfolding running_session_def
  by (rule reachable.received [OF reachable.opened]) (simp add: example_fresh_def)



text \<open>
  While the task held has not returned, a start-turn request has one effect: a done
  frame with \<^verbatim>\<open>reason="error"\<close> and the code \<open>CONFLICT\<close> is sent, addressed with the trace
  id of the running turn. No task is created and the running task, its cancellation
  event and its trace id are as before. When the call returns, \<^verbatim>\<open>finish_turn\<close> sends the
  done frame of its result after the conflict frame and clears the turn; run again,
  \<^verbatim>\<open>finish_turn\<close> sends nothing more.
\<close>

lemma start_turn_while_pending:
  assumes "turn_running s"
  shows "start_turn fr msg s =
           s\<lparr> sent := sent s @
               [AssistantDone (py_or (current_trace_id s) (fresh_trace_id fr)) ''error'' None
                  [(''input_tokens'', 0), (''output_tokens'', 0)] []
                  (Some [(''code'', ''CONFLICT''), (''message'', ''turn already running'')])] \<rparr>
         \<and> turn_running (start_turn fr msg s)
         \<and> finish_turn (Inr result) (start_turn fr msg s) =
             Inr (s\<lparr> current_task := None, current_cancel := None, current_trace_id := None,
                     sent := sent s @
               [AssistantDone (py_or (current_trace_id s) (fresh_trace_id fr)) ''error'' None
                  [(''input_tokens'', 0), (''output_tokens'', 0)] []
                  (Some [(''code'', ''CONFLICT''), (''message'', ''turn already running'')]),
                AssistantDone (trace_id result) (reason result)
                  (map_option message_id (assistant_message result))
                  (usage_model (Some (usage result))) (capability_warnings result)
                  (error result)] \<rparr>)
         \<and> finish_turn outcome
               (s\<lparr> current_task := None, current_cancel := None, current_trace_id := None,
                   sent := sent s @
               [AssistantDone (py_or (current_trace_id s) (fresh_trace_id fr)) ''error'' None
                  [(''input_tokens'', 0), (''output_tokens'', 0)] []
                  (Some [(''code'', ''CONFLICT''), (''message'', ''turn already running'')]),
                AssistantDone (trace_id result) (reason result)
                  (map_option message_id (assistant_message result))
                  (usage_model (Some (usage result))) (capability_warnings result)
                  (error result)] \<rparr>) =
             Inr (s\<lparr> current_task := None, current_cancel := None, current_trace_id := None,
                   sent := sent s @
               [AssistantDone (py_or (current_trace_id s) (fresh_trace_id fr)) ''error'' None
                  [(''input_tokens'', 0), (''output_tokens'', 0)] []
                  (Some [(''code'', ''CONFLICT''), (''message'', ''turn already running'')]),
                AssistantDone (trace_id result) (reason result)
                  (map_option message_id (assistant_message result))
                  (usage_model (Some (usage result))) (capability_warnings result)
                  (error result)] \<rparr>)"
proof -
  from assms obtain t where t: "current_task s = Some t"
    by (auto simp add: turn_running_def split: option.splits)
  have start: "start_turn fr msg s =
           s\<lparr> sent := sent s @
               [AssistantDone (py_or (current_trace_id s) (fresh_trace_id fr)) ''error'' None
                  [(''input_tokens'', 0), (''output_tokens'', 0)] []
                  (Some [(''code'', ''CONFLICT''), (''message'', ''turn already running'')])] \<rparr>"
    using assms by (simp add: start_turn_def send_done_def usage_model_None)
  have still: "turn_running (start_turn fr msg s)"
    using assms unfolding start by (simp add: turn_running_def)
  have fin: "finish_turn (Inr result) (start_turn fr msg s) =
             Inr (s\<lparr> current_task := None, current_cancel := None, current_trace_id := None,
                     sent := sent s @
               [AssistantDone (py_or (current_trace_id s) (fresh_trace_id fr)) ''error'' None
                  [(''input_tokens'', 0), (''output_tokens'', 0)] []
                  (Some [(''code'', ''CONFLICT''), (''message'', ''turn already running'')]),
                AssistantDone (trace_id result) (reason result)
                  (map_option message_id (assistant_message result))
                  (usage_model (Some (usage result))) (capability_warnings result)
                  (error result)] \<rparr>)"
    unfolding start using t
    by (cases "assistant_message result")
       (simp_all add: finish_turn_def send_result_def send_done_def clear_turn_def)
  show ?thesis
    using start still fin by (simp add: finish_turn_def)
qed

lemmas session_steps =
  handle_raw_def start_turn_def turn_running_def new_session_def resolve_conversation_id_def
  publish_received_def publish_def send_done_def send_result_def clear_turn_def
  finish_turn_def handle_cancel_def usage_model_def

lemmas session_examples =
  running_session_def held_session_def hello_task_def second_task_def hello_frame_def
  example_fresh_def later_fresh_def hello_result_def second_result_def wiped_session_def

text \<open>
  The running call of \<open>running_session\<close> returns: its task is done, and \<^verbatim>\<open>finish_turn\<close>
  has not yet sent the done frame and cleared the variables.
\<close>

lemma running_session_task: "current_task running_session = Some hello_task"
  by (simp add: session_steps session_examples Let_def)

lemma held_session_reachable: "reachable held_session"
  unfolding held_session_def
  by (rule reachable.returned [OF running_session_reachable running_session_task])

text \<open>
  Claim C5. A second start-turn request for a session whose turn is not over should be
  answered with \<open>CONFLICT\<close> and leave the turns of the session to end with one done
  frame each. In the state above, reached when the call has returned and its completion
  has not yet been handled, \<^verbatim>\<open>current_task.done()\<close> makes the guard of \<^verbatim>\<open>start_turn\<close>
  pass: the request sends no frame and starts a second task under the trace id \<open>t2\<close>.
  The pending \<^verbatim>\<open>finish_turn\<close> then sends the done frame of the first turn and clears the
  variables, which now are those of the second turn: no task is held any more, and
  \<^verbatim>\<open>finish_turn\<close>, which alone sends the done frame of a result, returns at once when it
  is run for the second turn.
\<close>

theorem start_turn_after_return_wipes_turn:
  "reachable held_session
   \<and> current_task held_session = Some (hello_task \<lparr> task_done := True \<rparr>)
   \<and> current_trace_id held_session = Some ''t1''
   \<and> sent (start_turn later_fresh hello_frame held_session) = []
   \<and> current_task (start_turn later_fresh hello_frame held_session) = Some second_task
   \<and> current_trace_id (start_turn later_fresh hello_frame held_session) = Some ''t2''
   \<and> finish_turn (Inr hello_result) (start_turn later_fresh hello_frame held_session)
       = Inr wiped_session
   \<and> finish_turn (Inr second_result) wiped_session = Inr wiped_session"
proof -
  have a: "current_task held_session = Some (hello_task \<lparr> task_done := True \<rparr>)"
    "current_trace_id held_session = Some ''t1''"
    by (simp_all add: session_steps session_examples Let_def)
  have b: "sent (start_turn later_fresh hello_frame held_session) = []"
    "current_task (start_turn later_fresh hello_frame held_session) = Some second_task"
    "current_trace_id (start_turn later_fresh hello_frame held_session) = Some ''t2''"
    by (simp_all add: session_steps session_examples Let_def)
  have c: "finish_turn (Inr hello_result) (start_turn later_fresh hello_frame held_session)
       = Inr wiped_session"
    by (simp add: session_steps session_examples Let_def)
  have d: "finish_turn (Inr second_result) wiped_session = Inr wiped_session"
    by (simp add: finish_turn_def wiped_session_def)
  from held_session_reachable a b c d show ?thesis by blast
qed

text \<open>
  In the state that is left, a cancel frame for the second turn finds no running turn.
\<close>

lemma wiped_turn_cancel_not_found:
  "handle_cancel \<lparr> cancel_trace_id = ''t2'', cancel_reason = None \<rparr> wiped_session
     = wiped_session \<lparr> sent := sent wiped_session @
         [AssistantDone ''t2'' ''error'' None
            [(''input_tokens'', 0), (''output_tokens'', 0)] []
            (Some [(''code'', ''NOT_FOUND''), (''message'', ''no running turn'')])] \<rparr>"
  by (simp add: handle_cancel_def turn_running_def send_done_def usage_model_def
        wiped_session_def)

end
